theory Spec2Isabelle
  imports Main "HOL-Library.AList" "HOL-Library.Sublist"
begin

unbundle bit_operations_syntax

section \<open>The ASLR slide detector of \<^verbatim>\<open>angr/analyses/aslr_detector.py\<close>\<close>

subsection \<open>Data model\<close>

text \<open>
  Addresses are Python integers, hence \<^typ>\<open>int\<close>. The trace is a Python list of
  addresses. Trace indices come from \<^verbatim>\<open>enumerate\<close>, so they are natural numbers.

  All failures of the source are \<^verbatim>\<open>raise Exception(message)\<close>, or exceptions raised by
  the interpreter; each is one constructor:
  \<^item> \<open>IndexError\<close>: a list read out of range;
  \<^item> \<open>AttributeError\<close>: a method call on \<^verbatim>\<open>None\<close>;
  \<^item> \<open>AmbiguousOrAbsentTrace\<close>: "Trace does not seem to contain object initializers for ...";
  \<^item> \<open>AmbiguousSlide\<close>: "Trace seems ambiguous with respect to what the ASLR slides are for ...";
  \<^item> \<open>UnresolvedModule\<close>: "Internal error: cannot translate address" and
    "Internal error: object is untranslated";
  \<^item> \<open>NoOwningModule\<close>: "Can't figure out which object this address belongs to";
  \<^item> \<open>TraceDesyncLibrary\<close>: "Trace desynced on jumping into (library). Did you load the
    right version of this library?";
  \<^item> \<open>TraceDesyncUnmapped a\<close>: "Trace desynced on jumping into a, where no library is mapped!".
\<close>

datatype error =
    IndexError
  | AttributeError
  | AmbiguousOrAbsentTrace
  | AmbiguousSlide
  | UnresolvedModule
  | NoOwningModule
  | TraceDesyncLibrary
  | TraceDesyncUnmapped int

text \<open>
  The analysis reads its surroundings through \<^verbatim>\<open>self.project\<close>: the loader, the loaded
  objects and the block lifter. None of them is defined in this file of the source, so they
  are parameters. An object is a handle of type \<open>'o\<close> (Python compares and hashes objects by
  identity); its attributes are read through the record:
  \<^item> \<open>all_objects\<close>: \<^verbatim>\<open>project.loader.all_objects\<close>;
  \<^item> \<open>find_object_containing\<close>: \<^verbatim>\<open>project.loader.find_object_containing\<close>, \<open>None\<close> when
    no object is mapped at the address;
  \<^item> \<open>extern_object\<close>, \<open>kernel_object\<close>: \<^verbatim>\<open>project.loader._extern_object\<close> and
    \<^verbatim>\<open>project.loader._kernel_object\<close>;
  \<^item> \<open>binary_basename\<close>, \<open>pic\<close>, \<open>initializers\<close>, \<open>entry\<close>, \<open>is_main_bin\<close>,
    \<open>contains_addr\<close>: the attributes and the method of an object of the same names;
  \<^item> \<open>custom_base_addr\<close>: the truth value of \<^verbatim>\<open>obj._custom_base_addr\<close>, which the
    source only ever tests in a condition;
  \<^item> \<open>constant_jump_targets\<close>: \<^verbatim>\<open>project.factory.block(addr).vex.constant_jump_targets\<close>.
\<close>

record 'o project =
  all_objects :: "'o list"
  find_object_containing :: "int \<Rightarrow> 'o option"
  extern_object :: "'o option"
  kernel_object :: "'o option"
  binary_basename :: "'o \<Rightarrow> string"
  pic :: "'o \<Rightarrow> bool"
  custom_base_addr :: "'o \<Rightarrow> bool"
  initializers :: "'o \<Rightarrow> int list"
  entry :: "'o \<Rightarrow> int"
  is_main_bin :: "'o \<Rightarrow> bool"
  contains_addr :: "'o \<Rightarrow> int \<Rightarrow> bool"
  constant_jump_targets :: "int \<Rightarrow> int set"

text \<open>
  \<^verbatim>\<open>self._aslr_slides\<close> is a Python dict: keys are unique and iteration follows insertion
  order, which \<^verbatim>\<open>translate_trace_addr\<close> depends on. It is an association list, read with
  \<^const>\<open>map_of\<close> and written with \<^const>\<open>AList.update\<close> (in place for a key that is present,
  at the end for a new one). A key is an object or \<^verbatim>\<open>None\<close>: \<^verbatim>\<open>compare_addr\<close> stores under
  whatever the loader's lookup returned.
\<close>

type_synonym 'o slides = "('o option \<times> int) list"

text \<open>\<^verbatim>\<open>xs[i]\<close> for a non-negative index: out of range raises.\<close>

definition getitem :: "int list \<Rightarrow> nat \<Rightarrow> error + int" where
  "getitem xs i = (if i < length xs then Inr (xs ! i) else Inl IndexError)"

subsection \<open>\<^verbatim>\<open>_filter_idx\<close>\<close>

definition filter_idx :: "'o project \<Rightarrow> int list \<Rightarrow> int \<Rightarrow> nat \<Rightarrow> error + bool" where
  "filter_idx P trace angr_addr idx =
     (case getitem trace idx of
        Inl e \<Rightarrow> Inl e
      | Inr cur \<Rightarrow>
          let slide = cur - angr_addr;
              legal_next = constant_jump_targets P angr_addr
          in if legal_next \<noteq> {} then
               (case getitem trace (idx + 1) of
                  Inl e \<Rightarrow> Inl e
                | Inr nxt \<Rightarrow> Inr (\<exists>a\<in>legal_next. a + slide = nxt))
             else
               (case getitem trace (idx + 1) of
                  Inl e \<Rightarrow> Inl e
                | Inr nxt \<Rightarrow> Inr (abs (cur - nxt) > 0x1000)))"

subsection \<open>\<^verbatim>\<open>_locate_entry_point\<close>\<close>

text \<open>The body of the \<^verbatim>\<open>for idx, addr in enumerate(self._trace)\<close> loop.\<close>

definition scan_step :: "int list \<Rightarrow> int \<Rightarrow> int \<Rightarrow> nat \<times> int \<Rightarrow> nat set \<Rightarrow> nat set" where
  "scan_step trace angr_addr threshold = (\<lambda>(idx, addr) indices.
     if (addr - angr_addr) AND 0xFFF = 0 \<and>
        (idx = 0 \<or> abs (trace ! (idx - 1) - addr) > threshold)
     then insert idx indices else indices)"

definition scan :: "int list \<Rightarrow> int \<Rightarrow> int \<Rightarrow> nat set \<Rightarrow> nat set" where
  "scan trace angr_addr threshold indices =
     fold (scan_step trace angr_addr threshold) (enumerate 0 trace) indices"

text \<open>
  \<^verbatim>\<open>{i for i in indices if self._filter_idx(angr_addr, i)}\<close>: the comprehension raises as
  soon as one call raises, whatever the order in which the set is walked.
\<close>

definition filter_indices :: "'o project \<Rightarrow> int list \<Rightarrow> int \<Rightarrow> nat set \<Rightarrow> error + nat set" where
  "filter_indices P trace angr_addr indices =
     (if \<exists>i\<in>indices. filter_idx P trace angr_addr i = Inl IndexError then Inl IndexError
      else Inr {i \<in> indices. filter_idx P trace angr_addr i = Inr True})"

text \<open>
  The \<^verbatim>\<open>while\<close> loop, on the state \<open>(indices, threshold)\<close>. The last argument is a ghost
  log, no variable of the source: the thresholds at which a scan pass has run, oldest first.
\<close>

function locate_loop ::
  "'o project \<Rightarrow> int list \<Rightarrow> int \<Rightarrow> nat set \<Rightarrow> int \<Rightarrow> int list \<Rightarrow> (error + nat set) \<times> int list" where
  "locate_loop P trace angr_addr indices threshold passes =
     (if indices = {} \<and> threshold > 0x2000 then
        (case filter_indices P trace angr_addr (scan trace angr_addr threshold indices) of
           Inl e \<Rightarrow> (Inl e, passes @ [threshold])
         | Inr indices' \<Rightarrow>
             locate_loop P trace angr_addr indices' (threshold div 2) (passes @ [threshold]))
      else (Inr indices, passes))"
  by pat_completeness auto
termination
  by (relation "measure (\<lambda>(P, trace, angr_addr, indices, threshold, passes). nat threshold)") auto

declare locate_loop.simps [simp del]

definition locate_run :: "'o project \<Rightarrow> int list \<Rightarrow> int \<Rightarrow> (error + nat set) \<times> int list" where
  "locate_run P trace angr_addr = locate_loop P trace angr_addr {} 0x40000 []"

definition locate_entry_point :: "'o project \<Rightarrow> int list \<Rightarrow> int \<Rightarrow> error + nat set" where
  "locate_entry_point P trace angr_addr = fst (locate_run P trace angr_addr)"

subsection \<open>\<^verbatim>\<open>_identify_aslr_slides\<close>\<close>

text \<open>
  The inner loop over the entry addresses of one object; \<open>possibilities\<close> is \<^verbatim>\<open>None\<close> until
  the first entry address has been searched.
\<close>

fun entries_loop ::
  "'o project \<Rightarrow> int list \<Rightarrow> int list \<Rightarrow> int set option \<Rightarrow> error + int set option" where
  "entries_loop P trace [] possibilities = Inr possibilities"
| "entries_loop P trace (entry_addr # rest) possibilities =
     (case locate_entry_point P trace entry_addr of
        Inl e \<Rightarrow> Inl e
      | Inr indices \<Rightarrow>
          let slides = (\<lambda>idx. trace ! idx - entry_addr) ` indices
          in entries_loop P trace rest
               (Some (case possibilities of None \<Rightarrow> slides | Some p \<Rightarrow> p \<inter> slides)))"

definition entries_of :: "'o project \<Rightarrow> 'o \<Rightarrow> int list" where
  "entries_of P obj = initializers P obj @ (if is_main_bin P obj then [entry P obj] else [])"

text \<open>The body of the loop over \<^verbatim>\<open>all_objects\<close>, on the state \<^verbatim>\<open>self._aslr_slides\<close>.\<close>

definition identify_obj :: "'o project \<Rightarrow> int list \<Rightarrow> 'o \<Rightarrow> 'o slides \<Rightarrow> error + 'o slides" where
  "identify_obj P trace obj slides =
     (if prefix ''cle##'' (binary_basename P obj) then Inr slides
      else if \<not> pic P obj then Inr (AList.update (Some obj) 0 slides)
      else if custom_base_addr P obj then Inr (AList.update (Some obj) 0 slides)
      else
        (case entries_loop P trace (entries_of P obj) None of
           Inl e \<Rightarrow> Inl e
         | Inr None \<Rightarrow> Inr slides
         | Inr (Some possibilities) \<Rightarrow>
             if card possibilities = 0 then Inl AmbiguousOrAbsentTrace
             else if card possibilities = 1
               then Inr (AList.update (Some obj) (the_elem possibilities) slides)
             else Inl AmbiguousSlide))"

fun identify_loop :: "'o project \<Rightarrow> int list \<Rightarrow> 'o list \<Rightarrow> 'o slides \<Rightarrow> error + 'o slides" where
  "identify_loop P trace [] slides = Inr slides"
| "identify_loop P trace (obj # objs) slides =
     (case identify_obj P trace obj slides of
        Inl e \<Rightarrow> Inl e
      | Inr slides' \<Rightarrow> identify_loop P trace objs slides')"

text \<open>\<^verbatim>\<open>__init__\<close>: the table starts empty and is filled by \<^verbatim>\<open>_identify_aslr_slides\<close>.\<close>

definition identify_aslr_slides :: "'o project \<Rightarrow> int list \<Rightarrow> error + 'o slides" where
  "identify_aslr_slides P trace = identify_loop P trace (all_objects P) []"

subsection \<open>\<^verbatim>\<open>translate_state_addr\<close>, \<^verbatim>\<open>translate_trace_addr\<close>\<close>

text \<open>The argument \<open>obj\<close> is \<open>None\<close> when the caller leaves it out.\<close>

definition translate_state_addr :: "'o project \<Rightarrow> 'o slides \<Rightarrow> int \<Rightarrow> 'o option \<Rightarrow> error + int" where
  "translate_state_addr P slides state_addr obj =
     (let obj' = (if obj = None then find_object_containing P state_addr else obj)
      in case map_of slides obj' of
           None \<Rightarrow> Inl UnresolvedModule
         | Some slide \<Rightarrow> Inr (state_addr + slide))"

text \<open>
  The \<^verbatim>\<open>for obj, slide in self._aslr_slides.items()\<close> loop with its \<^verbatim>\<open>else\<close> branch; a key
  \<^verbatim>\<open>None\<close> has no method \<^verbatim>\<open>contains_addr\<close>.
\<close>

fun find_slid_owner :: "'o project \<Rightarrow> int \<Rightarrow> 'o slides \<Rightarrow> error + 'o option" where
  "find_slid_owner P trace_addr [] = Inl NoOwningModule"
| "find_slid_owner P trace_addr ((obj, slide) # rest) =
     (case obj of
        None \<Rightarrow> Inl AttributeError
      | Some ob \<Rightarrow>
          if contains_addr P ob (trace_addr - slide) then Inr obj
          else find_slid_owner P trace_addr rest)"

definition translate_trace_addr :: "'o project \<Rightarrow> 'o slides \<Rightarrow> int \<Rightarrow> 'o option \<Rightarrow> error + int" where
  "translate_trace_addr P slides trace_addr obj =
     (case (if obj = None then find_slid_owner P trace_addr slides else Inr obj) of
        Inl e \<Rightarrow> Inl e
      | Inr obj' \<Rightarrow>
          (case map_of slides obj' of
             None \<Rightarrow> Inl UnresolvedModule
           | Some slide \<Rightarrow> Inr (trace_addr - slide)))"

subsection \<open>\<^verbatim>\<open>compare_addr\<close>\<close>

text \<open>Returns the answer together with the table, which the third branch writes.\<close>

definition compare_addr ::
  "'o project \<Rightarrow> 'o slides \<Rightarrow> int \<Rightarrow> int \<Rightarrow> error + (bool \<times> 'o slides)" where
  "compare_addr P slides trace_addr state_addr =
     (let current_bin = find_object_containing P state_addr
      in if current_bin = extern_object P \<or> current_bin = kernel_object P then Inr (False, slides)
         else (case map_of slides current_bin of
                 Some current_slide \<Rightarrow> Inr (trace_addr = state_addr + current_slide, slides)
               | None \<Rightarrow>
                   if (trace_addr - state_addr) AND 0xFFF = 0
                     then Inr (True, AList.update current_bin (trace_addr - state_addr) slides)
                   else if current_bin \<noteq> None then Inl TraceDesyncLibrary
                   else Inl (TraceDesyncUnmapped state_addr)))"

subsection \<open>Notions used in the statements\<close>

text \<open>
  One turn of the \<^verbatim>\<open>while\<close> loop of \<^verbatim>\<open>_locate_entry_point\<close>, entered with no index
  collected: the scan at a threshold, then the filter.
\<close>

definition scan_pass :: "'o project \<Rightarrow> int list \<Rightarrow> int \<Rightarrow> int \<Rightarrow> error + nat set" where
  "scan_pass P trace angr_addr threshold =
     filter_indices P trace angr_addr (scan trace angr_addr threshold {})"

text \<open>
  \<^verbatim>\<open>{self._trace[idx] - entry for idx in indices}\<close> for the indices the search returns;
  empty when the search raises.
\<close>

definition candidate_slides :: "'o project \<Rightarrow> int list \<Rightarrow> int \<Rightarrow> int set" where
  "candidate_slides P trace entry_addr =
     (case locate_entry_point P trace entry_addr of
        Inl e \<Rightarrow> {}
      | Inr indices \<Rightarrow> (\<lambda>idx. trace ! idx - entry_addr) ` indices)"

text \<open>
  The intersection, over the entry addresses of an object, of their candidate slides: the
  final value of \<^verbatim>\<open>possibilities\<close> when no search raises.
\<close>

definition possible_slides :: "'o project \<Rightarrow> int list \<Rightarrow> 'o \<Rightarrow> int set" where
  "possible_slides P trace obj = (\<Inter>e\<in>set (entries_of P obj). candidate_slides P trace e)"

text \<open>
  The translation to trace space as section 4.5 of the specification words it, for the
  comparison with \<^const>\<open>translate_state_addr\<close>: the module is inferred by scanning the slide
  table for a module whose containment predicate holds at the model address minus that
  module's slide; no such module is \<open>NoOwningModule\<close>, a module without an entry is
  \<open>UnresolvedModule\<close>.
\<close>

definition to_trace_spec :: "'o project \<Rightarrow> 'o slides \<Rightarrow> int \<Rightarrow> error + int" where
  "to_trace_spec P slides model_address =
     (case find (\<lambda>(m, slide). case m of None \<Rightarrow> False
                                | Some ob \<Rightarrow> contains_addr P ob (model_address - slide)) slides of
        None \<Rightarrow> Inl NoOwningModule
      | Some (m, slide) \<Rightarrow>
          (case map_of slides m of
             None \<Rightarrow> Inl UnresolvedModule
           | Some s \<Rightarrow> Inr (model_address + s)))"

subsection \<open>A small project and two traces\<close>

text \<open>
  Four objects: the main binary \<open>0\<close> (position-independent, one initializer at \<open>0x400800\<close>
  whose block jumps to \<open>0x400900\<close>, entry point \<open>0x401000\<close> whose block ends in an indirect
  jump), a library \<open>1\<close> that is not position-independent, and the loader's two
  pseudo-objects \<open>2\<close> and \<open>3\<close>.
\<close>

definition demo :: "nat project" where
  "demo = \<lparr>
     all_objects = [0, 1, 2, 3],
     find_object_containing = (\<lambda>a.
       if 0x400000 \<le> a \<and> a < 0x500000 then Some 0
       else if 0x600000 \<le> a \<and> a < 0x700000 then Some 1
       else if 0x800000 \<le> a \<and> a < 0x808000 then Some 2
       else if 0x900000 \<le> a \<and> a < 0x908000 then Some 3
       else None),
     extern_object = Some 2,
     kernel_object = Some 3,
     binary_basename = (\<lambda>ob.
       if ob = 0 then ''a.out'' else if ob = 1 then ''libfoo.so''
       else if ob = 2 then ''cle##externs'' else ''cle##kernel''),
     pic = (\<lambda>ob. ob \<noteq> 1),
     custom_base_addr = (\<lambda>ob. False),
     initializers = (\<lambda>ob. if ob = 0 then [0x400800] else []),
     entry = (\<lambda>ob. if ob = 0 then 0x401000 else 0),
     is_main_bin = (\<lambda>ob. ob = 0),
     contains_addr = (\<lambda>ob a.
       if ob = 0 then 0x400000 \<le> a \<and> a < 0x500000
       else if ob = 1 then 0x600000 \<le> a \<and> a < 0x700000
       else if ob = 2 then 0x800000 \<le> a \<and> a < 0x808000
       else if ob = 3 then 0x900000 \<le> a \<and> a < 0x908000
       else False),
     constant_jump_targets = (\<lambda>a. if a = 0x400800 then {0x400900} else {})
   \<rparr>"

text \<open>The main binary runs at slide \<open>0x7000000\<close>: its initializer at index 1, its entry at index 4.\<close>

definition demo_trace :: "int list" where
  "demo_trace = [0x7F000010, 0x7400800, 0x7400900, 0x7F000020, 0x7401000, 0x7F100010]"

text \<open>The table once the main binary and the library are resolved.\<close>

definition demo_slides :: "nat slides" where
  "demo_slides = [(Some 0, 0x7000000), (Some 1, 0)]"

text \<open>A trace whose only page-aligned candidate for \<open>0x1000\<close> follows a jump of \<open>0x9FF0\<close> bytes.\<close>

definition short_jump_trace :: "int list" where
  "short_jump_trace = [0x20010, 0x2A000, 0x2C010]"

text \<open>The projects of the examples that need a pseudo-object with other attributes.\<close>

definition demo_pseudo_init :: "nat project" where
  "demo_pseudo_init = demo\<lparr>initializers := (\<lambda>ob. if ob = 2 then [0x800100] else [])\<rparr>"

definition demo_pseudo_fixed :: "nat project" where
  "demo_pseudo_fixed = demo\<lparr>pic := (\<lambda>ob. ob = 0)\<rparr>"

text \<open>
  The project in which the library is position-independent: it has no initializer, so
  resolution leaves it without a slide, and \<^verbatim>\<open>compare_addr\<close> resolves it later. The table
  below is the one that resolution, a comparison at the unmapped address \<open>0x1000\<close> and a
  comparison at the library's address \<open>0x600000\<close> produce, in this order.
\<close>

definition demo_late :: "nat project" where
  "demo_late = demo\<lparr>pic := (\<lambda>ob. True)\<rparr>"

definition demo_late_slides :: "nat slides" where
  "demo_late_slides = [(Some 0, 0x7000000), (None, 0x1000), (Some 1, 0x8000000)]"

text \<open>The project whose loader finds no object anywhere, whatever the objects contain.\<close>

definition demo_blind :: "nat project" where
  "demo_blind = demo\<lparr>find_object_containing := (\<lambda>a. None)\<rparr>"

section \<open>Properties\<close>

subsection \<open>The scan\<close>

lemma and_fff_mod: "(x::int) AND 0xFFF = x mod 4096"
proof -
  have "x AND mask 12 = x mod 2 ^ 12"
    by (simp only: take_bit_eq_mask [symmetric] take_bit_eq_mod)
  then show ?thesis by (simp add: mask_eq_exp_minus_1)
qed

text \<open>
  The \<^verbatim>\<open>for\<close> loop from position \<open>n\<close> on: \<open>xs\<close> is what remains of the trace, \<open>S\<close> what has
  been collected.
\<close>

lemma fold_scan_step:
  "fold (scan_step trace a th) (enumerate n xs) S =
     S \<union> {i. n \<le> i \<and> i < n + length xs \<and> (xs ! (i - n) - a) mod 4096 = 0 \<and>
              (i = 0 \<or> abs (trace ! (i - 1) - xs ! (i - n)) > th)}"
proof (induction xs arbitrary: n S)
  case Nil
  then show ?case by auto
next
  case (Cons x xs)
  have "{i. n \<le> i \<and> i < n + length (x # xs) \<and> ((x # xs) ! (i - n) - a) mod 4096 = 0 \<and>
              (i = 0 \<or> abs (trace ! (i - 1) - (x # xs) ! (i - n)) > th)} =
        (if (x - a) mod 4096 = 0 \<and> (n = 0 \<or> abs (trace ! (n - 1) - x) > th) then {n} else {}) \<union>
        {i. Suc n \<le> i \<and> i < Suc n + length xs \<and> (xs ! (i - Suc n) - a) mod 4096 = 0 \<and>
              (i = 0 \<or> abs (trace ! (i - 1) - xs ! (i - Suc n)) > th)}"
    (is "?L = ?M \<union> ?R")
  proof (rule set_eqI)
    fix i
    show "i \<in> ?L \<longleftrightarrow> i \<in> ?M \<union> ?R"
    proof (cases "i = n")
      case True
      then show ?thesis by simp
    next
      case False
      then have "n \<le> i \<longleftrightarrow> Suc n \<le> i" by arith
      moreover have "Suc n \<le> i \<Longrightarrow> (x # xs) ! (i - n) = xs ! (i - Suc n)"
        by (simp add: nth_Cons' Suc_diff_le)
      ultimately show ?thesis using False by auto
    qed
  qed
  moreover have "scan_step trace a th (n, x) S = S \<union> ?M"
    by (auto simp: scan_step_def and_fff_mod)
  moreover have "fold (scan_step trace a th) (enumerate n (x # xs)) S =
      scan_step trace a th (n, x) S \<union> ?R"
    by (simp only: enumerate_simps fold_simps Cons.IH)
  ultimately show ?case
    by (simp only: Un_assoc)
qed

lemma scan_eq:
  "scan trace a th S =
     S \<union> {i. i < length trace \<and> (trace ! i - a) mod 4096 = 0 \<and>
              (i = 0 \<or> abs (trace ! (i - 1) - trace ! i) > th)}"
  by (simp add: scan_def fold_scan_step)

lemma scan_bounded: "i \<in> scan trace a th {} \<Longrightarrow> i < length trace"
  by (simp add: scan_eq)

text \<open>
  C3. For every entry address and every threshold, one scan pass (started, as the loop
  starts it, with no index collected) collects exactly the trace indices \<open>i\<close> such that
  \<open>trace[i] - entry_address\<close> is 0 modulo 4096 and (\<open>i = 0\<close> or
  \<open>|trace[i-1] - trace[i]| > threshold\<close>): no other index, and none of them missing.
\<close>

theorem scan_collects_exactly:
  "scan trace entry_address threshold {} =
     {i. i < length trace \<and> (trace ! i - entry_address) mod 4096 = 0 \<and>
         (i = 0 \<or> abs (trace ! (i - 1) - trace ! i) > threshold)}"
  by (simp add: scan_eq)

theorem scan_collects_exactly_witness:
  "1 \<in> scan demo_trace 0x400800 0x40000 {} \<and> 2 \<notin> scan demo_trace 0x400800 0x40000 {} \<and>
   4 \<notin> scan demo_trace 0x400800 0x40000 {} \<and> 6 \<notin> scan demo_trace 0x400800 0x40000 {}"
  by (simp add: scan_collects_exactly demo_trace_def)

subsection \<open>The validator\<close>

lemma filter_idx_in_range:
  "idx + 1 < length trace \<Longrightarrow>
   filter_idx P trace angr_addr idx =
     Inr (if constant_jump_targets P angr_addr \<noteq> {}
          then \<exists>t\<in>constant_jump_targets P angr_addr.
                 t + (trace ! idx - angr_addr) = trace ! (idx + 1)
          else abs (trace ! idx - trace ! (idx + 1)) > 0x1000)"
  by (simp add: filter_idx_def getitem_def Let_def)

lemma filter_idx_out_of_range:
  "\<not> idx + 1 < length trace \<Longrightarrow> filter_idx P trace angr_addr idx = Inl IndexError"
  by (simp add: filter_idx_def getitem_def Let_def)

text \<open>
  C4. For every model-space address \<open>angr_address\<close> and candidate trace index \<open>idx\<close>, with
  \<open>slide = trace[idx] - angr_address\<close>: if the lifter reports a non-empty set of direct
  successors for the block at \<open>angr_address\<close>, validation returns true if and only if some
  successor \<open>t\<close> satisfies \<open>t + slide = trace[idx+1]\<close>; if it reports none, validation returns
  true if and only if \<open>|trace[idx] - trace[idx+1]| > 0x1000\<close>. The first conjunct is the
  equivalence for every index (where \<open>trace[idx+1]\<close> does not exist the validation does
  not return true); the second says that the validation returns that truth value, and
  does not raise, whenever \<open>trace[idx+1]\<close> exists.
\<close>

theorem filter_idx_validates:
  "(filter_idx P trace angr_address idx = Inr True \<longleftrightarrow>
      idx + 1 < length trace \<and>
      (if constant_jump_targets P angr_address \<noteq> {}
       then \<exists>t\<in>constant_jump_targets P angr_address.
              t + (trace ! idx - angr_address) = trace ! (idx + 1)
       else abs (trace ! idx - trace ! (idx + 1)) > 0x1000)) \<and>
   (idx + 1 < length trace \<longrightarrow>
      filter_idx P trace angr_address idx =
        Inr (if constant_jump_targets P angr_address \<noteq> {}
             then \<exists>t\<in>constant_jump_targets P angr_address.
                    t + (trace ! idx - angr_address) = trace ! (idx + 1)
             else abs (trace ! idx - trace ! (idx + 1)) > 0x1000))"
proof (cases "idx + 1 < length trace")
  case True
  then show ?thesis by (simp only: filter_idx_in_range) simp
next
  case False
  then show ?thesis by (simp add: filter_idx_out_of_range)
qed

theorem filter_idx_validates_witness:
  "(1::nat) + 1 < length demo_trace \<and> constant_jump_targets demo 0x400800 = {0x400900} \<and>
   0x400900 + (demo_trace ! 1 - 0x400800) = demo_trace ! (1 + 1) \<and>
   filter_idx demo demo_trace 0x400800 1 = Inr True \<and>
   (4::nat) + 1 < length demo_trace \<and> constant_jump_targets demo 0x401000 = {} \<and>
   abs (demo_trace ! 4 - demo_trace ! (4 + 1)) > 0x1000 \<and>
   filter_idx demo demo_trace 0x401000 4 = Inr True \<and>
   filter_idx demo demo_trace 0x401000 1 = Inr False"
  using filter_idx_validates [of demo demo_trace "0x400800" 1]
    filter_idx_validates [of demo demo_trace "0x401000" 4]
    filter_idx_validates [of demo demo_trace "0x401000" 1]
  by (simp add: demo_def demo_trace_def)

lemma filter_idx_returns_iff:
  "(\<exists>b. filter_idx P trace a idx = Inr b) \<longleftrightarrow> idx < length trace - 1"
proof (cases "idx + 1 < length trace")
  case True
  then show ?thesis by (simp add: filter_idx_in_range)
next
  case False
  then show ?thesis by (simp add: filter_idx_out_of_range)
qed

lemma filter_idx_raises_iff:
  "filter_idx P trace a idx = Inl IndexError \<longleftrightarrow> \<not> idx < length trace - 1"
proof (cases "idx + 1 < length trace")
  case True
  then show ?thesis by (simp add: filter_idx_in_range)
next
  case False
  then show ?thesis by (simp add: filter_idx_out_of_range)
qed

text \<open>The only exception the validator raises is the out-of-range read.\<close>

lemma filter_idx_error: "filter_idx P trace a idx = Inl e \<Longrightarrow> e = IndexError"
  by (cases "idx + 1 < length trace") (simp_all add: filter_idx_in_range filter_idx_out_of_range)

subsection \<open>The adaptive search\<close>

lemma locate_loop_stop:
  "indices \<noteq> {} \<or> threshold \<le> 0x2000 \<Longrightarrow>
   locate_loop P trace a indices threshold passes = (Inr indices, passes)"
  by (subst locate_loop.simps) auto

lemma locate_loop_step:
  "0x2000 < threshold \<Longrightarrow>
   locate_loop P trace a {} threshold passes =
     (case scan_pass P trace a threshold of
        Inl e \<Rightarrow> (Inl e, passes @ [threshold])
      | Inr indices' \<Rightarrow> locate_loop P trace a indices' (threshold div 2) (passes @ [threshold]))"
  by (subst locate_loop.simps) (simp add: scan_pass_def)

lemma locate_loop_turn:
  "0x2000 < threshold \<Longrightarrow>
   locate_loop P trace a {} threshold passes =
     (case scan_pass P trace a threshold of
        Inl e \<Rightarrow> (Inl e, passes @ [threshold])
      | Inr indices' \<Rightarrow>
          if indices' \<noteq> {} then (Inr indices', passes @ [threshold])
          else locate_loop P trace a {} (threshold div 2) (passes @ [threshold]))"
  by (simp add: locate_loop_step locate_loop_stop split: sum.splits)

text \<open>The whole run, turn by turn.\<close>

lemma locate_run_unfold:
  "locate_run P trace a =
     (case scan_pass P trace a 0x40000 of
        Inl e \<Rightarrow> (Inl e, [0x40000])
      | Inr S1 \<Rightarrow> if S1 \<noteq> {} then (Inr S1, [0x40000]) else
     (case scan_pass P trace a 0x20000 of
        Inl e \<Rightarrow> (Inl e, [0x40000, 0x20000])
      | Inr S2 \<Rightarrow> if S2 \<noteq> {} then (Inr S2, [0x40000, 0x20000]) else
     (case scan_pass P trace a 0x10000 of
        Inl e \<Rightarrow> (Inl e, [0x40000, 0x20000, 0x10000])
      | Inr S3 \<Rightarrow> if S3 \<noteq> {} then (Inr S3, [0x40000, 0x20000, 0x10000]) else
     (case scan_pass P trace a 0x8000 of
        Inl e \<Rightarrow> (Inl e, [0x40000, 0x20000, 0x10000, 0x8000])
      | Inr S4 \<Rightarrow> if S4 \<noteq> {} then (Inr S4, [0x40000, 0x20000, 0x10000, 0x8000]) else
     (case scan_pass P trace a 0x4000 of
        Inl e \<Rightarrow> (Inl e, [0x40000, 0x20000, 0x10000, 0x8000, 0x4000])
      | Inr S5 \<Rightarrow> (Inr S5, [0x40000, 0x20000, 0x10000, 0x8000, 0x4000]))))))"
  by (simp add: locate_run_def locate_loop_turn locate_loop_stop split: sum.splits)

text \<open>
  C2. For every entry address the adaptive search terminates (\<^const>\<open>locate_loop\<close> is a total
  function: the threshold is its measure). It starts with threshold \<open>0x40000\<close>, runs a scan
  pass and filters the indices found through the validator, halves the threshold after
  each pass, and stops as soon as the filtered index set is non-empty or the threshold is
  at most \<open>0x2000\<close>; so it performs at most 5 scan passes, at the thresholds \<open>0x40000\<close>,
  \<open>0x20000\<close>, \<open>0x10000\<close>, \<open>0x8000\<close>, \<open>0x4000\<close>. Here \<open>passes\<close> is the list of the thresholds
  at which a pass ran: every pass but the last filtered down to the empty set, the result
  is what the last pass gave, and a search that ends with the empty set has run all five.
\<close>

theorem locate_entry_point_terminates:
  "\<exists>r passes. locate_run P trace entry_address = (r, passes) \<and>
     locate_entry_point P trace entry_address = r \<and>
     passes \<noteq> [] \<and> length passes \<le> 5 \<and>
     prefix passes [0x40000, 0x20000, 0x10000, 0x8000, 0x4000] \<and>
     (\<forall>th\<in>set (butlast passes). scan_pass P trace entry_address th = Inr {}) \<and>
     scan_pass P trace entry_address (last passes) = r \<and>
     (r = Inr {} \<longrightarrow> passes = [0x40000, 0x20000, 0x10000, 0x8000, 0x4000])"
  by (simp add: locate_entry_point_def locate_run_unfold split: sum.splits)

theorem locate_entry_point_terminates_witness:
  "locate_run demo short_jump_trace 0x1000 = (Inr {1}, [0x40000, 0x20000, 0x10000, 0x8000]) \<and>
   locate_entry_point demo short_jump_trace 0x1000 = Inr {1} \<and>
   scan_pass demo short_jump_trace 0x1000 0x40000 = Inr {} \<and>
   scan_pass demo short_jump_trace 0x1000 0x20000 = Inr {} \<and>
   scan_pass demo short_jump_trace 0x1000 0x10000 = Inr {} \<and>
   scan_pass demo short_jump_trace 0x1000 0x8000 = Inr {1}"
proof -
  have run: "locate_run demo short_jump_trace 0x1000 = (Inr {1}, [0x40000, 0x20000, 0x10000, 0x8000])"
    by code_simp
  from locate_entry_point_terminates [of demo short_jump_trace "0x1000"] run
  show ?thesis by simp
qed

subsection \<open>The validator on the last index of the trace\<close>

lemma scan_looks_back:
  "i < length trace \<Longrightarrow> i \<in> scan trace a th {} \<longleftrightarrow> i \<in> scan (take (Suc i) trace) a th {}"
  by (auto simp: scan_eq)

lemma last_index_selected:
  "trace \<noteq> [] \<Longrightarrow> (last trace - a) mod 4096 = 0 \<Longrightarrow>
   length trace = 1 \<or> th < abs (trace ! (length trace - 2) - last trace) \<Longrightarrow>
   length trace - 1 \<in> scan trace a th {}"
  by (auto simp: scan_eq last_conv_nth numeral_2_eq_2)

lemma scan_pass_raises:
  "trace \<noteq> [] \<Longrightarrow> length trace - 1 \<in> scan trace a th {} \<Longrightarrow>
   scan_pass P trace a th = Inl IndexError"
  unfolding scan_pass_def filter_indices_def
  by (auto simp: filter_idx_raises_iff)

lemma locate_raises:
  "trace \<noteq> [] \<Longrightarrow> length trace - 1 \<in> scan trace a 0x40000 {} \<Longrightarrow>
   locate_entry_point P trace a = Inl IndexError"
  by (simp add: locate_entry_point_def locate_run_unfold scan_pass_raises)

text \<open>
  C9. Validation of a candidate index \<open>idx\<close> reads \<open>trace[idx + 1]\<close> on every path, so it
  returns a truth value exactly when \<open>idx < length(trace) - 1\<close> and raises \<open>IndexError\<close>
  otherwise. Whether the scanner selects an index \<open>i\<close> depends on the trace up to \<open>i\<close>
  only, never on \<open>trace[i + 1]\<close>; it selects the last index of the trace whenever that
  address is page-aligned with the entry address and follows a large enough jump (or is
  the only address), and then the validation's read is out of bounds: the pass raises,
  and so does the whole search when this happens in its first pass.
\<close>

theorem validator_reads_past_last_candidate:
  "((\<exists>b. filter_idx P trace angr_addr idx = Inr b) \<longleftrightarrow> idx < length trace - 1) \<and>
   (filter_idx P trace angr_addr idx = Inl IndexError \<longleftrightarrow> \<not> idx < length trace - 1) \<and>
   (idx < length trace \<longrightarrow>
      (idx \<in> scan trace angr_addr threshold {} \<longleftrightarrow>
       idx \<in> scan (take (Suc idx) trace) angr_addr threshold {})) \<and>
   (trace \<noteq> [] \<and> (last trace - angr_addr) mod 4096 = 0 \<and>
    (length trace = 1 \<or> threshold < abs (trace ! (length trace - 2) - last trace)) \<longrightarrow>
      length trace - 1 \<in> scan trace angr_addr threshold {} \<and>
      scan_pass P trace angr_addr threshold = Inl IndexError \<and>
      (threshold = 0x40000 \<longrightarrow> locate_entry_point P trace angr_addr = Inl IndexError))"
proof (intro conjI impI)
  show "(\<exists>b. filter_idx P trace angr_addr idx = Inr b) \<longleftrightarrow> idx < length trace - 1"
    by (rule filter_idx_returns_iff)
  show "filter_idx P trace angr_addr idx = Inl IndexError \<longleftrightarrow> \<not> idx < length trace - 1"
    by (rule filter_idx_raises_iff)
  show "idx \<in> scan trace angr_addr threshold {} \<longleftrightarrow>
        idx \<in> scan (take (Suc idx) trace) angr_addr threshold {}" if "idx < length trace"
    using that by (rule scan_looks_back)
next
  assume last: "trace \<noteq> [] \<and> (last trace - angr_addr) mod 4096 = 0 \<and>
    (length trace = 1 \<or> threshold < abs (trace ! (length trace - 2) - last trace))"
  then have ne: "trace \<noteq> []"
    and aligned: "(last trace - angr_addr) mod 4096 = 0"
    and jump: "length trace = 1 \<or> threshold < abs (trace ! (length trace - 2) - last trace)"
    by blast+
  show sel: "length trace - 1 \<in> scan trace angr_addr threshold {}"
    by (rule last_index_selected [OF ne aligned jump])
  show "scan_pass P trace angr_addr threshold = Inl IndexError"
    by (rule scan_pass_raises [OF ne sel])
  show "locate_entry_point P trace angr_addr = Inl IndexError" if "threshold = 0x40000"
    using locate_raises [OF ne, of angr_addr P] sel that by simp
qed

theorem validator_reads_past_last_candidate_witness:
  "[0x1000 :: int] \<noteq> [] \<and> (last [0x1000] - 0x1000 :: int) mod 4096 = 0 \<and>
   length [0x1000 :: int] = 1 \<and>
   filter_idx demo [0x1000] 0x1000 0 = Inl IndexError \<and>
   0 \<in> scan [0x1000] 0x1000 0x40000 {} \<and>
   scan_pass demo [0x1000] 0x1000 0x40000 = Inl IndexError \<and>
   locate_entry_point demo [0x1000] 0x1000 = Inl IndexError"
  using validator_reads_past_last_candidate [of demo "[0x1000]" "0x1000" 0 "0x40000"]
  by simp

subsection \<open>Slide resolution for one object\<close>

lemma scan_pass_finite:
  assumes "scan_pass P trace a th = Inr S"
  shows "finite S"
proof -
  from assms have "S \<subseteq> scan trace a th {}"
    by (auto simp: scan_pass_def filter_indices_def split: if_splits)
  moreover have "scan trace a th {} \<subseteq> {..<length trace}"
    by (auto simp: scan_eq)
  ultimately show ?thesis
    by (meson finite_lessThan finite_subset)
qed

lemma locate_entry_point_finite:
  assumes "locate_entry_point P trace a = Inr S"
  shows "finite S"
  using assms
  by (auto simp: locate_entry_point_def locate_run_unfold scan_pass_finite
      split: sum.splits if_splits)

text \<open>The indices a search returns are indices of the trace, so \<^verbatim>\<open>self._trace[idx]\<close> is defined.\<close>

lemma scan_pass_in_range: "scan_pass P trace a th = Inr S \<Longrightarrow> i \<in> S \<Longrightarrow> i + 1 < length trace"
  by (auto simp: scan_pass_def filter_indices_def filter_idx_raises_iff split: if_splits)

lemma locate_entry_point_in_range:
  assumes "locate_entry_point P trace a = Inr S" and "i \<in> S"
  shows "i < length trace"
proof -
  from assms(1) have "S = {} \<or> (\<exists>th. scan_pass P trace a th = Inr S)"
    by (auto simp: locate_entry_point_def locate_run_unfold split: sum.splits if_splits)
  with assms(2) show ?thesis
    by (auto dest: scan_pass_in_range)
qed

lemma candidate_slides_finite: "finite (candidate_slides P trace e)"
  by (auto simp: candidate_slides_def locate_entry_point_finite split: sum.splits)

text \<open>Once seeded, the accumulator is narrowed by every remaining entry address.\<close>

lemma entries_loop_Some:
  "\<forall>e\<in>set es. \<exists>S. locate_entry_point P trace e = Inr S \<Longrightarrow>
   entries_loop P trace es (Some p) =
     Inr (Some (p \<inter> (\<Inter>e\<in>set es. candidate_slides P trace e)))"
proof (induction es arbitrary: p)
  case Nil
  then show ?case by simp
next
  case (Cons e es)
  from Cons.prems obtain S where S: "locate_entry_point P trace e = Inr S"
    by auto
  from Cons.prems have rest: "\<forall>e\<in>set es. \<exists>S. locate_entry_point P trace e = Inr S"
    by simp
  show ?case
    by (simp add: S Cons.IH [OF rest] candidate_slides_def Let_def Int_assoc)
qed

text \<open>The first entry address seeds it.\<close>

lemma entries_loop_None:
  assumes "es \<noteq> []" and "\<forall>e\<in>set es. \<exists>S. locate_entry_point P trace e = Inr S"
  shows "entries_loop P trace es None = Inr (Some (\<Inter>e\<in>set es. candidate_slides P trace e))"
proof (cases es)
  case Nil
  with assms show ?thesis by simp
next
  case (Cons e es')
  from assms Cons obtain S where S: "locate_entry_point P trace e = Inr S"
    by auto
  from assms Cons have rest: "\<forall>e\<in>set es'. \<exists>S. locate_entry_point P trace e = Inr S"
    by simp
  show ?thesis
    by (simp add: Cons S entries_loop_Some [OF rest] candidate_slides_def Let_def)
qed

lemma possible_slides_finite: "entries_of P obj \<noteq> [] \<Longrightarrow> finite (possible_slides P trace obj)"
  by (cases "entries_of P obj") (auto simp: possible_slides_def candidate_slides_finite)

lemma demo_init_search: "locate_entry_point demo demo_trace 0x400800 = Inr {1}"
  by code_simp

lemma demo_entry_search: "locate_entry_point demo demo_trace 0x401000 = Inr {4}"
  by code_simp

lemma demo_entries: "entries_of demo 0 = [0x400800, 0x401000]"
  by (simp add: entries_of_def demo_def)

lemma demo_possible_slides: "possible_slides demo demo_trace 0 = {0x7000000}"
  by (simp add: possible_slides_def demo_entries candidate_slides_def
      demo_init_search demo_entry_search) (simp add: demo_trace_def)

text \<open>
  C1, as stated: for every module that is position-independent, has no pinned base address
  and has at least one entry address, slide resolution intersects the candidate-slide sets
  of all entry addresses and then raises \<open>AmbiguousOrAbsentTrace\<close> on the empty set, records
  the element of a singleton, and raises \<open>AmbiguousSlide\<close> otherwise. It fails for an object
  whose \<^verbatim>\<open>binary_basename\<close> starts with \<^verbatim>\<open>cle##\<close>: the loop skips it before any other test.
  Object 2 of the first project is position-independent, has no custom base and has one
  initializer, the intersection is empty, and resolution neither raises nor records
  anything. It also fails when a search raises: on the one-address trace of the second
  example the search for the main binary's initializer selects the last index, and
  resolution ends in \<open>IndexError\<close>, none of the three outcomes.
\<close>

theorem resolution_without_outcome:
  "pic demo_pseudo_init 2 \<and> \<not> custom_base_addr demo_pseudo_init 2 \<and>
   entries_of demo_pseudo_init 2 = [0x800100] \<and>
   locate_entry_point demo_pseudo_init demo_trace 0x800100 = Inr {} \<and>
   possible_slides demo_pseudo_init demo_trace 2 = {} \<and>
   identify_obj demo_pseudo_init demo_trace 2 [] = Inr [] \<and>
   identify_obj demo_pseudo_init demo_trace 2 [] \<noteq> Inl AmbiguousOrAbsentTrace \<and>
   pic demo 0 \<and> \<not> custom_base_addr demo 0 \<and> entries_of demo 0 = [0x400800, 0x401000] \<and>
   locate_entry_point demo [0x7400800] 0x400800 = Inl IndexError \<and>
   identify_obj demo [0x7400800] 0 [] = Inl IndexError"
  by code_simp

text \<open>
  C1, amended: for every module that is not a pseudo-object (its \<^verbatim>\<open>binary_basename\<close> does not
  start with \<^verbatim>\<open>cle##\<close>), is position-independent, has no pinned/custom base address and has
  at least one entry address (its initializers, plus its entry point if it is the main
  module), and whose per-entry searches all return: slide resolution computes the
  intersection across all entry addresses of the per-entry candidate-slide sets (the first
  seeds the accumulator, each later one narrows it) and then raises
  \<open>AmbiguousOrAbsentTrace\<close> if the intersection is empty, records its unique element as the
  module's slide if it is a singleton, and raises \<open>AmbiguousSlide\<close> if it has more than one
  element; these are the only three cases.
\<close>

theorem identify_obj_intersects:
  assumes "\<not> prefix ''cle##'' (binary_basename P obj)"
    and "pic P obj" and "\<not> custom_base_addr P obj"
    and "entries_of P obj \<noteq> []"
    and "\<forall>e\<in>set (entries_of P obj). \<exists>S. locate_entry_point P trace e = Inr S"
  shows "entries_loop P trace (entries_of P obj) None = Inr (Some (possible_slides P trace obj)) \<and>
    (possible_slides P trace obj = {} \<longrightarrow>
       identify_obj P trace obj slides = Inl AmbiguousOrAbsentTrace) \<and>
    (\<forall>s. possible_slides P trace obj = {s} \<longrightarrow>
       identify_obj P trace obj slides = Inr (AList.update (Some obj) s slides)) \<and>
    (1 < card (possible_slides P trace obj) \<longrightarrow>
       identify_obj P trace obj slides = Inl AmbiguousSlide) \<and>
    (possible_slides P trace obj = {} \<or> (\<exists>s. possible_slides P trace obj = {s}) \<or>
       1 < card (possible_slides P trace obj))"
proof -
  let ?I = "possible_slides P trace obj"
  have loop: "entries_loop P trace (entries_of P obj) None = Inr (Some ?I)"
    unfolding possible_slides_def by (rule entries_loop_None [OF assms(4,5)])
  have fin: "finite ?I"
    by (rule possible_slides_finite [OF assms(4)])
  have body: "identify_obj P trace obj slides =
      (if card ?I = 0 then Inl AmbiguousOrAbsentTrace
       else if card ?I = 1 then Inr (AList.update (Some obj) (the_elem ?I) slides)
       else Inl AmbiguousSlide)"
    using assms(1-3) by (simp add: identify_obj_def loop)
  have empty: "card ?I = 0 \<longleftrightarrow> ?I = {}"
    using fin by simp
  have cases: "?I = {} \<or> (\<exists>s. ?I = {s}) \<or> 1 < card ?I"
  proof -
    have "card ?I = 0 \<or> card ?I = 1 \<or> 1 < card ?I" by arith
    then show ?thesis using empty by (auto simp: card_1_singleton_iff)
  qed
  show ?thesis
    using loop cases by (auto simp: body)
qed

theorem identify_obj_intersects_witness:
  "\<not> prefix ''cle##'' (binary_basename demo 0) \<and> pic demo 0 \<and> \<not> custom_base_addr demo 0 \<and>
   entries_of demo 0 = [0x400800, 0x401000] \<and>
   locate_entry_point demo demo_trace 0x400800 = Inr {1} \<and>
   locate_entry_point demo demo_trace 0x401000 = Inr {4} \<and>
   possible_slides demo demo_trace 0 = {0x7000000} \<and>
   identify_obj demo demo_trace 0 [] = Inr [(Some 0, 0x7000000)]"
proof -
  have a: "\<not> prefix ''cle##'' (binary_basename demo 0)" by (simp add: demo_def)
  have b: "pic demo 0" and c: "\<not> custom_base_addr demo 0" by (simp_all add: demo_def)
  have d: "entries_of demo 0 \<noteq> []" by (simp add: demo_entries)
  have e: "\<forall>e\<in>set (entries_of demo 0). \<exists>S. locate_entry_point demo demo_trace e = Inr S"
    by (simp add: demo_entries demo_init_search demo_entry_search)
  from identify_obj_intersects [OF a b c d e, of "[]"] a b c
  show ?thesis
    by (simp add: demo_entries demo_init_search demo_entry_search demo_possible_slides)
qed

subsection \<open>The two fast paths\<close>

lemma identify_obj_fast:
  assumes "\<not> prefix ''cle##'' (binary_basename P obj)"
    and "\<not> pic P obj \<or> custom_base_addr P obj"
  shows "identify_obj P trace obj slides = Inr (AList.update (Some obj) 0 slides)"
  using assms by (auto simp: identify_obj_def)

text \<open>Resolving one object leaves the entries of the others alone.\<close>

lemma identify_obj_other:
  assumes "identify_obj P trace obj' slides = Inr slides'" and "obj' \<noteq> obj"
  shows "map_of slides' (Some obj) = map_of slides (Some obj)"
  using assms
  by (auto simp: identify_obj_def update_conv' split: if_splits sum.splits option.splits)

lemma identify_loop_zero:
  assumes "\<not> prefix ''cle##'' (binary_basename P obj)"
    and "\<not> pic P obj \<or> custom_base_addr P obj"
  shows "identify_loop P trace objs slides = Inr table \<Longrightarrow>
         obj \<in> set objs \<or> map_of slides (Some obj) = Some 0 \<Longrightarrow>
         map_of table (Some obj) = Some 0"
proof (induction objs arbitrary: slides)
  case Nil
  then show ?case by simp
next
  case (Cons obj' objs)
  from Cons.prems(1) obtain slides' where
    step: "identify_obj P trace obj' slides = Inr slides'"
    and rest: "identify_loop P trace objs slides' = Inr table"
    by (auto split: sum.splits)
  have "obj \<in> set objs \<or> map_of slides' (Some obj) = Some 0"
  proof (cases "obj' = obj")
    case True
    with step assms show ?thesis by (auto simp: identify_obj_fast update_conv')
  next
    case False
    with Cons.prems(2) step assms show ?thesis
      by (auto simp: identify_obj_other)
  qed
  with rest show ?case by (rule Cons.IH)
qed

text \<open>
  C5, as stated: every module that is not position-independent, and every
  position-independent module with a pinned base address, gets slide 0. It fails for an
  object whose \<^verbatim>\<open>binary_basename\<close> starts with \<^verbatim>\<open>cle##\<close>: object 2 below is not
  position-independent, and resolution, of it alone or of all objects, gives it no slide.
\<close>

theorem pseudo_object_gets_no_slide:
  "\<not> pic demo_pseudo_fixed 2 \<and> 2 \<in> set (all_objects demo_pseudo_fixed) \<and>
   identify_obj demo_pseudo_fixed [0x1000, 0x2004, 0x30000] 2 [] = Inr [] \<and>
   identify_aslr_slides demo_pseudo_fixed demo_trace = Inr [(Some 0, 0x7000000), (Some 1, 0)] \<and>
   map_of [(Some 0, 0x7000000), (Some 1, 0 :: int)] (Some (2 :: nat)) = None"
  by code_simp

text \<open>
  C5, amended: for every module that is not a pseudo-object (its \<^verbatim>\<open>binary_basename\<close> does not
  start with \<^verbatim>\<open>cle##\<close>) and is either not position-independent or position-independent
  with a pinned/custom base address, slide resolution assigns slide exactly 0 without any
  trace search: whatever the trace and the table, the step for this module returns the
  table with 0 stored for it and cannot raise; and in every table that the resolution of
  all objects returns, such a module of \<^verbatim>\<open>all_objects\<close> has slide 0.
\<close>

theorem fast_path_slide_zero:
  assumes "\<not> prefix ''cle##'' (binary_basename P obj)"
    and "\<not> pic P obj \<or> custom_base_addr P obj"
  shows "identify_obj P trace obj slides = Inr (AList.update (Some obj) 0 slides) \<and>
    map_of (AList.update (Some obj) 0 slides) (Some obj) = Some 0 \<and>
    (\<forall>table. obj \<in> set (all_objects P) \<and> identify_aslr_slides P trace = Inr table \<longrightarrow>
       map_of table (Some obj) = Some 0)"
  using assms
  by (auto simp: identify_obj_fast update_conv' identify_aslr_slides_def
      dest: identify_loop_zero [OF assms])

theorem fast_path_slide_zero_witness:
  "\<not> prefix ''cle##'' (binary_basename demo 1) \<and> \<not> pic demo 1 \<and>
   identify_obj demo [0x1000, 0x2004, 0x30000] 1 [] = Inr [(Some 1, 0)] \<and>
   identify_obj demo [] 1 [(Some 0, 0x7000000)] = Inr [(Some 0, 0x7000000), (Some 1, 0)] \<and>
   1 \<in> set (all_objects demo) \<and>
   identify_aslr_slides demo demo_trace = Inr [(Some 0, 0x7000000), (Some 1, 0)]"
proof -
  have a: "\<not> prefix ''cle##'' (binary_basename demo 1)" by (simp add: demo_def)
  have b: "\<not> pic demo 1 \<or> custom_base_addr demo 1" by (simp add: demo_def)
  have run: "identify_aslr_slides demo demo_trace = Inr [(Some 0, 0x7000000), (Some 1, 0)]"
    by code_simp
  from fast_path_slide_zero [OF a b, of "[0x1000, 0x2004, 0x30000]" "[]"]
    fast_path_slide_zero [OF a b, of "[]" "[(Some 0, 0x7000000)]"] a run
  show ?thesis by (simp add: demo_def)
qed

subsection \<open>The slide table\<close>

text \<open>
  What a dict guarantees of the association list: resolution and comparison keep the keys
  unique, and resolution stores under objects only.
\<close>

lemma identify_obj_keys:
  assumes "identify_obj P trace obj slides = Inr slides'"
    and "distinct (map fst slides)" and "None \<notin> fst ` set slides"
  shows "distinct (map fst slides') \<and> None \<notin> fst ` set slides'"
proof -
  have "\<And>v. None \<notin> fst ` set (AList.update (Some obj) v slides)"
    using assms(3) by (simp add: dom_update)
  moreover have "\<And>v. distinct (map fst (AList.update (Some obj) v slides))"
    using assms(2) by (simp add: distinct_update)
  ultimately show ?thesis
    using assms
    by (auto simp: identify_obj_def split: if_splits sum.splits option.splits)
qed

lemma identify_loop_keys:
  "identify_loop P trace objs slides = Inr table \<Longrightarrow>
   distinct (map fst slides) \<Longrightarrow> None \<notin> fst ` set slides \<Longrightarrow>
   distinct (map fst table) \<and> None \<notin> fst ` set table"
proof (induction objs arbitrary: slides)
  case Nil
  then show ?case by simp
next
  case (Cons obj objs)
  from Cons.prems(1) obtain slides' where
    step: "identify_obj P trace obj slides = Inr slides'"
    and rest: "identify_loop P trace objs slides' = Inr table"
    by (auto split: sum.splits)
  from identify_obj_keys [OF step Cons.prems(2,3)] rest show ?case
    by (simp add: Cons.IH)
qed

lemma identify_aslr_slides_keys:
  "identify_aslr_slides P trace = Inr table \<Longrightarrow>
   distinct (map fst table) \<and> None \<notin> fst ` set table"
  unfolding identify_aslr_slides_def by (erule identify_loop_keys) simp_all

lemma compare_addr_distinct:
  "compare_addr P slides t m = Inr (b, slides') \<Longrightarrow> distinct (map fst slides) \<Longrightarrow>
   distinct (map fst slides')"
  by (auto simp: compare_addr_def Let_def distinct_update split: if_splits option.splits)

subsection \<open>Translation\<close>





lemma find_slid_owner_none:
  "find_slid_owner P t slides = Inl NoOwningModule \<longleftrightarrow>
   (\<forall>(k, s)\<in>set slides. \<exists>ob. k = Some ob \<and> \<not> contains_addr P ob (t - s))"
proof (induction P t slides rule: find_slid_owner.induct)
  case (1 P t)
  then show ?case by simp
next
  case (2 P t obj slide rest)
  show ?case
  proof (cases obj)
    case None
    then show ?thesis by simp
  next
    case (Some ob)
    show ?thesis
    proof (cases "contains_addr P ob (t - slide)")
      case True
      with Some show ?thesis by simp
    next
      case False
      with Some 2 show ?thesis by simp
    qed
  qed
qed

text \<open>A key \<^verbatim>\<open>None\<close> that the scan reaches stops it with an exception.\<close>

lemma find_slid_owner_None_key:
  "\<forall>(k, s)\<in>set pre. \<exists>ob. k = Some ob \<and> \<not> contains_addr P ob (t - s) \<Longrightarrow>
   find_slid_owner P t (pre @ (None, v) # rest) = Inl AttributeError"
  by (induction pre) auto





text \<open>
  The inferred round trip also rests on the loader: where its lookup does not find the
  object whose predicate holds, the translation back to trace space fails.
\<close>

lemma lookup_disagreement_breaks_round_trip:
  "map_of demo_slides (Some 0) = Some 0x7000000 \<and>
   contains_addr demo_blind 0 (0x7401000 - 0x7000000) \<and>
   distinct (map fst demo_slides) \<and> None \<notin> fst ` set demo_slides \<and>
   translate_trace_addr demo_blind demo_slides 0x7401000 None = Inr 0x401000 \<and>
   translate_state_addr demo_blind demo_slides 0x401000 None = Inl UnresolvedModule"
  by code_simp



subsection \<open>Comparison\<close>

text \<open>
  C7. For every module that already has a resolved slide \<open>S\<close> in the slide table and is not
  the extern or kernel pseudo-module, \<open>compare(trace_address, model_address)\<close> returns true
  if and only if \<open>trace_address - model_address = S\<close>, and returns the slide table as it
  was: no entry added, removed or overwritten.
\<close>

theorem compare_addr_resolved:
  assumes "find_object_containing P model_address = current_bin"
    and "current_bin \<noteq> extern_object P" and "current_bin \<noteq> kernel_object P"
    and "map_of slides current_bin = Some S"
  shows "compare_addr P slides trace_address model_address =
           Inr (trace_address - model_address = S, slides)"
  using assms by (auto simp: compare_addr_def)

theorem compare_addr_resolved_witness:
  "find_object_containing demo 0x401000 = Some 0 \<and> Some 0 \<noteq> extern_object demo \<and>
   Some 0 \<noteq> kernel_object demo \<and> map_of demo_slides (Some 0) = Some 0x7000000 \<and>
   compare_addr demo demo_slides 0x7401000 0x401000 = Inr (True, demo_slides) \<and>
   compare_addr demo demo_slides 0x7402000 0x401000 = Inr (False, demo_slides)"
proof -
  have a: "find_object_containing demo 0x401000 = Some 0"
    and b: "Some 0 \<noteq> extern_object demo" and c: "Some 0 \<noteq> kernel_object demo"
    by (simp_all add: demo_def)
  have d: "map_of demo_slides (Some 0) = Some 0x7000000"
    by (simp add: demo_slides_def)
  from compare_addr_resolved [OF a b c d, of "0x7401000"]
    compare_addr_resolved [OF a b c d, of "0x7402000"] a b c d
  show ?thesis by simp
qed

lemma desync_unmapped_only_if:
  "compare_addr P slides t m = Inl (TraceDesyncUnmapped x) \<Longrightarrow>
   x = m \<and> find_object_containing P m = None \<and> map_of slides None = None \<and>
   (t - m) mod 4096 \<noteq> 0"
  by (auto simp: compare_addr_def Let_def and_fff_mod split: if_splits option.splits)

lemma unmapped_aligned_records:
  assumes "find_object_containing P m = None" and "extern_object P \<noteq> None"
    and "kernel_object P \<noteq> None" and "map_of slides None = None"
    and "(t - m) mod 4096 = 0"
  shows "compare_addr P slides t m = Inr (True, AList.update None (t - m) slides)"
proof -
  from assms(1-3) have "find_object_containing P m \<noteq> extern_object P"
    and "find_object_containing P m \<noteq> kernel_object P"
    by auto
  with assms(1,4,5) show ?thesis
    by (simp add: compare_addr_def and_fff_mod)
qed

lemma unmapped_unaligned_raises:
  assumes "find_object_containing P m = None" and "extern_object P \<noteq> None"
    and "kernel_object P \<noteq> None" and "map_of slides None = None"
    and "(t - m) mod 4096 \<noteq> 0"
  shows "compare_addr P slides t m = Inl (TraceDesyncUnmapped m)"
proof -
  from assms(1-3) have "find_object_containing P m \<noteq> extern_object P"
    and "find_object_containing P m \<noteq> kernel_object P"
    by auto
  with assms(1,4,5) show ?thesis
    by (simp add: compare_addr_def and_fff_mod)
qed

text \<open>
  C10, as stated: whenever no module owns \<open>model_address\<close> (the lookup returns \<^verbatim>\<open>None\<close>, which
  is neither pseudo-module) and \<open>trace_address - model_address\<close> is 0 modulo 4096, compare
  records the difference under \<^verbatim>\<open>None\<close> and returns true. It fails once the table has an
  entry under \<^verbatim>\<open>None\<close>, which the first such call creates: the second call below has a
  page-aligned difference, returns false and records nothing, because the branch for a
  key that is present comes first.
\<close>

theorem second_unmapped_compare:
  "find_object_containing demo 0x1000 = None \<and> extern_object demo \<noteq> None \<and>
   kernel_object demo \<noteq> None \<and> (0x3000 - 0x1000 :: int) mod 4096 = 0 \<and>
   compare_addr demo [] 0x2000 0x1000 = Inr (True, [(None, 0x1000)]) \<and>
   compare_addr demo [(None, 0x1000)] 0x3000 0x1000 = Inr (False, [(None, 0x1000)])"
  by code_simp

text \<open>
  C10, amended: when \<open>compare(trace_address, model_address)\<close> is called, no module at all
  owns \<open>model_address\<close> (the containment lookup returns the no-module result, which is
  neither the extern nor the kernel pseudo-module), the slide table has no entry yet
  under the no-module result, and \<open>trace_address - model_address\<close> is 0 modulo 4096, compare
  records \<open>trace_address - model_address\<close> into the slide table keyed by the no-module
  result and returns true instead of raising; the "no library is mapped" failure is
  reached only when the difference is additionally not page-aligned (second conjunct:
  whenever that failure is raised, no module owns the address, the table has no entry
  under the no-module result and the difference is not page-aligned).
\<close>

theorem compare_addr_unmapped:
  "(find_object_containing P model_address = None \<and> extern_object P \<noteq> None \<and>
    kernel_object P \<noteq> None \<and> map_of slides None = None \<longrightarrow>
      ((trace_address - model_address) mod 4096 = 0 \<longrightarrow>
         compare_addr P slides trace_address model_address =
           Inr (True, AList.update None (trace_address - model_address) slides)) \<and>
      ((trace_address - model_address) mod 4096 \<noteq> 0 \<longrightarrow>
         compare_addr P slides trace_address model_address =
           Inl (TraceDesyncUnmapped model_address))) \<and>
   (compare_addr P slides trace_address model_address = Inl (TraceDesyncUnmapped x) \<longrightarrow>
      x = model_address \<and> find_object_containing P model_address = None \<and>
      map_of slides None = None \<and> (trace_address - model_address) mod 4096 \<noteq> 0)"
proof (intro conjI impI)
  assume h: "find_object_containing P model_address = None \<and> extern_object P \<noteq> None \<and>
    kernel_object P \<noteq> None \<and> map_of slides None = None"
  show "compare_addr P slides trace_address model_address =
           Inr (True, AList.update None (trace_address - model_address) slides)"
    if "(trace_address - model_address) mod 4096 = 0"
    using h that by (simp add: unmapped_aligned_records)
  show "compare_addr P slides trace_address model_address =
           Inl (TraceDesyncUnmapped model_address)"
    if "(trace_address - model_address) mod 4096 \<noteq> 0"
    using h that by (simp add: unmapped_unaligned_raises)
next
  assume "compare_addr P slides trace_address model_address = Inl (TraceDesyncUnmapped x)"
  from desync_unmapped_only_if [OF this]
  show "x = model_address" and "find_object_containing P model_address = None"
    and "map_of slides None = None" and "(trace_address - model_address) mod 4096 \<noteq> 0"
    by simp_all
qed

theorem compare_addr_unmapped_witness:
  "find_object_containing demo 0x1000 = None \<and> extern_object demo \<noteq> None \<and>
   kernel_object demo \<noteq> None \<and> map_of demo_slides None = None \<and>
   (0x2000 - 0x1000 :: int) mod 4096 = 0 \<and>
   compare_addr demo demo_slides 0x2000 0x1000 = Inr (True, demo_slides @ [(None, 0x1000)]) \<and>
   (0x2004 - 0x1000 :: int) mod 4096 \<noteq> 0 \<and>
   compare_addr demo demo_slides 0x2004 0x1000 = Inl (TraceDesyncUnmapped 0x1000)"
proof -
  have a: "find_object_containing demo 0x1000 = None" by (simp add: demo_def)
  have b: "extern_object demo \<noteq> None" and c: "kernel_object demo \<noteq> None"
    by (simp_all add: demo_def)
  have d: "map_of demo_slides None = None" by (simp add: demo_slides_def)
  have e: "AList.update None (0x2000 - 0x1000) demo_slides = demo_slides @ [(None, 0x1000)]"
    by (simp add: demo_slides_def)
  from compare_addr_unmapped [of demo "0x1000" demo_slides "0x2000"]
    compare_addr_unmapped [of demo "0x1000" demo_slides "0x2004"] a b c d e
  show ?thesis by simp
qed

text \<open>
  C8, as stated: with the module omitted, \<^verbatim>\<open>translate_state_addr\<close> infers the module by
  scanning the slide table for a module containing the model address minus that module's
  slide, and fails with \<open>NoOwningModule\<close> when it finds none. The source does not: at
  \<open>0x401000\<close>, which the main binary (slide \<open>0x7000000\<close>) contains, it returns the trace
  address where the scan finds no module; at the unmapped address \<open>0x10\<close> it raises
  \<open>UnresolvedModule\<close>, not \<open>NoOwningModule\<close>.
\<close>

theorem to_trace_spec_differs:
  "translate_state_addr demo demo_slides 0x401000 None = Inr 0x7401000 \<and>
   to_trace_spec demo demo_slides 0x401000 = Inl NoOwningModule \<and>
   translate_state_addr demo demo_slides 0x10 None = Inl UnresolvedModule \<and>
   to_trace_spec demo demo_slides 0x10 = Inl NoOwningModule \<and>
   UnresolvedModule \<noteq> NoOwningModule"
  by code_simp

text \<open>
  C8, amended: when \<^verbatim>\<open>translate_state_addr\<close> is called with the module omitted, it takes
  as the owning module the result of the loader's containment lookup at \<open>model_address\<close>
  itself (the slide table is not scanned, no slide is subtracted); it returns
  \<open>model_address + slide\<close> whenever the table has a slide stored under that result, also
  when the result is \<^verbatim>\<open>None\<close>; it fails with \<open>UnresolvedModule\<close> exactly when the table has no
  entry under that result; it never fails with \<open>NoOwningModule\<close>. That error, distinct from
  \<open>UnresolvedModule\<close>, is raised by \<^verbatim>\<open>translate_trace_addr\<close> with the module omitted,
  exactly when every key of the slide table is an object whose containment predicate
  fails at \<open>trace_address\<close> minus the slide stored for it (so also on the empty table); when
  the scan reaches a key \<^verbatim>\<open>None\<close> before any such object contains the address, that call
  raises \<open>AttributeError\<close> instead.
\<close>

theorem translate_state_addr_infers_by_lookup:
  "(\<forall>s. map_of slides (find_object_containing P model_address) = Some s \<longrightarrow>
      translate_state_addr P slides model_address None = Inr (model_address + s)) \<and>
   (map_of slides (find_object_containing P model_address) = None \<longrightarrow>
      translate_state_addr P slides model_address None = Inl UnresolvedModule) \<and>
   translate_state_addr P slides model_address obj \<noteq> Inl NoOwningModule \<and>
   (translate_trace_addr P slides trace_address None = Inl NoOwningModule \<longleftrightarrow>
      (\<forall>(k, s)\<in>set slides. \<exists>ob. k = Some ob \<and> \<not> contains_addr P ob (trace_address - s))) \<and>
   ((\<forall>(k, s)\<in>set pre. \<exists>ob. k = Some ob \<and> \<not> contains_addr P ob (trace_address - s)) \<longrightarrow>
      translate_trace_addr P (pre @ (None, v) # rest) trace_address None = Inl AttributeError)"
proof (intro conjI allI impI)
  show "translate_state_addr P slides model_address obj \<noteq> Inl NoOwningModule"
    by (simp add: translate_state_addr_def Let_def split: option.splits)
  show "translate_trace_addr P slides trace_address None = Inl NoOwningModule \<longleftrightarrow>
      (\<forall>(k, s)\<in>set slides. \<exists>ob. k = Some ob \<and> \<not> contains_addr P ob (trace_address - s))"
    by (simp add: translate_trace_addr_def find_slid_owner_none [symmetric]
        split: sum.splits option.splits)
  show "translate_trace_addr P (pre @ (None, v) # rest) trace_address None = Inl AttributeError"
    if "\<forall>(k, s)\<in>set pre. \<exists>ob. k = Some ob \<and> \<not> contains_addr P ob (trace_address - s)"
    by (simp add: translate_trace_addr_def find_slid_owner_None_key [OF that])
qed (simp_all add: translate_state_addr_def)

theorem translate_state_addr_infers_by_lookup_witness:
  "map_of demo_slides (find_object_containing demo 0x401000) = Some 0x7000000 \<and>
   translate_state_addr demo demo_slides 0x401000 None = Inr 0x7401000 \<and>
   map_of demo_slides (find_object_containing demo 0x10) = None \<and>
   translate_state_addr demo demo_slides 0x10 None = Inl UnresolvedModule \<and>
   translate_trace_addr demo demo_slides 0x10 None = Inl NoOwningModule \<and>
   map_of demo_late_slides (find_object_containing demo_late 0x10) = Some 0x1000 \<and>
   translate_state_addr demo_late demo_late_slides 0x10 None = Inr 0x1010 \<and>
   \<not> contains_addr demo_late 0 (0x10 - 0x7000000) \<and>
   translate_trace_addr demo_late demo_late_slides 0x10 None = Inl AttributeError"
proof -
  have a: "find_object_containing demo 0x401000 = Some 0"
    and b: "find_object_containing demo 0x10 = None"
    and c: "find_object_containing demo_late 0x10 = None"
    and d: "\<not> contains_addr demo 0 (0x10 - 0x7000000)"
    and e: "\<not> contains_addr demo 1 0x10"
    and f: "\<not> contains_addr demo_late 0 (0x10 - 0x7000000)"
    by (simp_all add: demo_def demo_late_def)
  from translate_state_addr_infers_by_lookup
      [where slides = demo_slides and P = demo and model_address = "0x401000"
         and trace_address = "0x10" and obj = None and pre = "[]"]
    translate_state_addr_infers_by_lookup
      [where slides = demo_slides and P = demo and model_address = "0x10"
         and trace_address = "0x10" and obj = None and pre = "[]"]
    translate_state_addr_infers_by_lookup
      [where slides = demo_late_slides and P = demo_late and model_address = "0x10"
         and trace_address = "0x10" and obj = None and pre = "[(Some 0, 0x7000000)]"
         and v = "0x1000" and rest = "[(Some 1, 0x8000000)]"]
    a b c d e f
  show ?thesis
    by (simp add: demo_slides_def demo_late_slides_def)
qed

end
